theory Spec2Isabelle
  imports Complex_Main
begin

section \<open>Numbers of the drawing runtime\<close>

text \<open>
  The sketch computes with JavaScript numbers. Finite numbers are modelled as exact
  rationals; a value of type \<open>jsnum\<close> may also be \<open>None\<close>, which stands for a result that
  is not a finite number (\<open>NaN\<close>, or an infinity from a division by zero). Reading a
  property that an object does not have yields \<open>undefined\<close>, which arithmetic converts
  to \<open>NaN\<close>; such a property is therefore \<open>None\<close> as well.
\<close>

type_synonym jsnum = "rat option"

definition js_add :: "jsnum \<Rightarrow> jsnum \<Rightarrow> jsnum" where
  "js_add a b = (case a of None \<Rightarrow> None | Some p \<Rightarrow> (case b of None \<Rightarrow> None | Some q \<Rightarrow> Some (p + q)))"

definition js_trunc :: "rat \<Rightarrow> int" where
  "js_trunc q = (if 0 \<le> q then \<lfloor>q\<rfloor> else \<lceil>q\<rceil>)"

definition js_rem :: "jsnum \<Rightarrow> rat \<Rightarrow> jsnum" where
  \<comment> \<open>The operator \<open>%\<close>: the remainder takes the sign of the dividend.\<close>
  "js_rem a m = (case a of None \<Rightarrow> None
                 | Some p \<Rightarrow> if m = 0 then None else Some (p - m * of_int (js_trunc (p / m))))"

definition map_p5 :: "rat \<Rightarrow> rat \<Rightarrow> rat \<Rightarrow> rat \<Rightarrow> rat \<Rightarrow> jsnum" where
  \<comment> \<open>Modelled from the spec: the runtime's \<open>map(n, start1, stop1, start2, stop2)\<close> is not
      part of the sketch; it maps \<open>n\<close> linearly from the first range to the second.\<close>
  "map_p5 n start1 stop1 start2 stop2 =
     (if stop1 = start1 then None
      else Some ((n - start1) / (stop1 - start1) * (stop2 - start2) + start2))"

definition random_range :: "rat \<Rightarrow> rat \<Rightarrow> rat \<Rightarrow> rat" where
  \<comment> \<open>Modelled from the spec: the runtime's \<open>random(lo, hi)\<close>; the uniform draw \<open>u\<close> from
      \<open>[0, 1)\<close> is supplied by the environment.\<close>
  "random_range u lo hi = u * (hi - lo) + lo"

definition random_elem :: "nat \<Rightarrow> 'a list \<Rightarrow> 'a" where
  \<comment> \<open>Modelled from the spec: the runtime's \<open>random(array)\<close> picks one element uniformly;
      the index draw \<open>k\<close> is supplied by the environment. The arrays it is applied to hold
      the loaded files and are never empty.\<close>
  "random_elem k xs = xs ! (k mod length xs)"

section \<open>Assets\<close>

datatype variant = VarA | VarB

record image =
  img_file :: string
  img_randomOffset :: jsnum

definition loadImage :: "string \<Rightarrow> image" where
  \<comment> \<open>A loaded image carries no \<open>randomOffset\<close> property, and no statement of the sketch
      assigns one.\<close>
  "loadImage f = \<lparr>img_file = f, img_randomOffset = None\<rparr>"

definition TEAR_FILENAMES_A :: "string list" where
  "TEAR_FILENAMES_A = [''tear1.png'', ''tear2.png'', ''tear3.png'']"

fun TEAR_FILENAMES_B :: "variant \<Rightarrow> string list" where
  "TEAR_FILENAMES_B VarA = [''tear6.png'', ''tear7.png'', ''tear8.png'']"
| "TEAR_FILENAMES_B VarB = [''tear4.png'', ''tear5.png'', ''tear6.png'']"

fun SLIDESHOW_FILENAMES :: "variant \<Rightarrow> string list" where
  "SLIDESHOW_FILENAMES VarA = [''slide1.jpg'']"
| "SLIDESHOW_FILENAMES VarB =
     [''slide1.jpg'', ''slide2.jpg'', ''slide3.jpg'', ''slide4.jpg'', ''slide5.jpg'', ''slide6.png'']"

definition tearImagesSetA :: "image list" where
  "tearImagesSetA = map loadImage TEAR_FILENAMES_A"

definition tearImagesSetB :: "variant \<Rightarrow> image list" where
  "tearImagesSetB v = map loadImage (TEAR_FILENAMES_B v)"

definition slideshowImages :: "variant \<Rightarrow> image list" where
  "slideshowImages v = map loadImage (SLIDESHOW_FILENAMES v)"

text \<open>
  \<open>activeTearSet\<close> holds a reference to one of the two arrays filled by \<open>preload\<close>, and
  \<open>toggleTearSet\<close> compares references; \<open>preload\<close> assigns the first array before any frame
  or input handler runs.
\<close>

datatype tear_set = SetA | SetB

fun tear_images :: "variant \<Rightarrow> tear_set \<Rightarrow> image list" where
  "tear_images v SetA = tearImagesSetA"
| "tear_images v SetB = tearImagesSetB v"

section \<open>Tear\<close>

record tear =
  t_x :: rat
  t_y :: rat
  t_size :: rat
  t_lifespan :: int
  t_life :: int
  t_vx :: rat
  t_vy :: rat
  t_ay :: rat
  t_img :: image

text \<open>The four draws of the constructor, in the order it makes them.\<close>

record tear_rnd =
  rnd_size :: rat
  rnd_vx :: rat
  rnd_vy :: rat
  rnd_img :: nat

definition Tear_new_A :: "rat \<Rightarrow> rat \<Rightarrow> image list \<Rightarrow> tear_rnd \<Rightarrow> tear" where
  "Tear_new_A x y activeSet r =
     \<lparr>t_x = x, t_y = y,
      t_size = random_range (rnd_size r) 160 260,
      t_lifespan = 5 * 60,
      t_life = 5 * 60,
      t_vx = random_range (rnd_vx r) (- 3 / 2) (3 / 2),
      t_vy = random_range (rnd_vy r) (- 2) 0,
      t_ay = 1 / 2,
      t_img = random_elem (rnd_img r) activeSet\<rparr>"

definition Tear_new_B :: "rat \<Rightarrow> rat \<Rightarrow> image list \<Rightarrow> tear_rnd \<Rightarrow> tear" where
  \<comment> \<open>\<open>2.5 * 60\<close> frames.\<close>
  "Tear_new_B x y activeSet r =
     \<lparr>t_x = x, t_y = y,
      t_size = random_range (rnd_size r) 160 260,
      t_lifespan = 150,
      t_life = 150,
      t_vx = random_range (rnd_vx r) (- 3 / 2) (3 / 2),
      t_vy = random_range (rnd_vy r) (- 2) 0,
      t_ay = 1 / 2,
      t_img = random_elem (rnd_img r) activeSet\<rparr>"

definition Tear_update :: "tear \<Rightarrow> tear" where
  "Tear_update t =
     (let t1 = t\<lparr>t_vy := t_vy t + t_ay t\<rparr>;
          t2 = t1\<lparr>t_x := t_x t1 + t_vx t1\<rparr>;
          t3 = t2\<lparr>t_y := t_y t2 + t_vy t2\<rparr>
      in t3\<lparr>t_life := t_life t3 - 1\<rparr>)"

definition Tear_alpha :: "tear \<Rightarrow> jsnum" where
  "Tear_alpha t = map_p5 (of_int (t_life t)) 0 (of_int (t_lifespan t)) 0 255"

definition Tear_scaleFactor :: "tear \<Rightarrow> jsnum" where
  "Tear_scaleFactor t = map_p5 (of_int (t_life t)) 0 (of_int (t_lifespan t)) (1 / 10) 1"

definition js_scale :: "rat \<Rightarrow> jsnum \<Rightarrow> jsnum" where
  "js_scale a b = (case b of None \<Rightarrow> None | Some q \<Rightarrow> Some (a * q))"

text \<open>
  What one call of \<open>display\<close> hands to the runtime: the translation, the tint and the
  image with its drawn width and height.
\<close>

datatype tint = TintHSLA jsnum rat rat jsnum | TintGrayA rat jsnum

record tear_cmd =
  tc_x :: rat
  tc_y :: rat
  tc_tint :: tint
  tc_img :: image
  tc_w :: jsnum
  tc_h :: jsnum

definition Tear_display_A :: "jsnum \<Rightarrow> tear \<Rightarrow> tear_cmd" where
  "Tear_display_A currentHue t =
     (let alpha = Tear_alpha t;
          scaleFactor = Tear_scaleFactor t;
          hueValue = js_rem (js_add currentHue (img_randomOffset (t_img t))) 360
      in \<lparr>tc_x = t_x t, tc_y = t_y t,
          tc_tint = TintHSLA hueValue 80 50 alpha,
          tc_img = t_img t,
          tc_w = js_scale (t_size t) scaleFactor,
          tc_h = js_scale (t_size t) scaleFactor\<rparr>)"

definition Tear_display_B :: "tear \<Rightarrow> tear_cmd" where
  "Tear_display_B t =
     (let alpha = Tear_alpha t;
          scaleFactor = Tear_scaleFactor t
      in \<lparr>tc_x = t_x t, tc_y = t_y t,
          tc_tint = TintGrayA 255 alpha,
          tc_img = t_img t,
          tc_w = js_scale (t_size t) scaleFactor,
          tc_h = js_scale (t_size t) scaleFactor\<rparr>)"

fun tint_alpha :: "tint \<Rightarrow> jsnum" where
  "tint_alpha (TintHSLA h s l a) = a"
| "tint_alpha (TintGrayA g a) = a"

fun tint_hue :: "tint \<Rightarrow> jsnum" where
  "tint_hue (TintHSLA h s l a) = h"
| "tint_hue (TintGrayA g a) = None"

section \<open>CollageImage\<close>

record collage_image =
  c_img :: image
  c_opacity :: int
  c_scale :: rat
  c_x :: rat
  c_y :: rat
  c_rotation :: rat

record collage_rnd =
  rnd_slide :: nat
  rnd_scale :: rat
  rnd_x :: rat
  rnd_y :: rat

definition CollageImage_new :: "rat \<Rightarrow> rat \<Rightarrow> image \<Rightarrow> collage_rnd \<Rightarrow> collage_image" where
  \<comment> \<open>\<open>w\<close> and \<open>h\<close> are the canvas width and height when the item is made.\<close>
  "CollageImage_new w h im r =
     \<lparr>c_img = im,
      c_opacity = 0,
      c_scale = random_range (rnd_scale r) (6 / 10) 1,
      c_x = random_range (rnd_x r) (w * (1 / 10)) (w * (9 / 10)),
      c_y = random_range (rnd_y r) (h * (1 / 10)) (h * (9 / 10)),
      c_rotation = 0\<rparr>"

definition CollageImage_update :: "collage_image \<Rightarrow> collage_image" where
  "CollageImage_update c =
     (if c_opacity c < 255 then c\<lparr>c_opacity := c_opacity c + 5\<rparr> else c)"

record collage_cmd =
  cc_x :: rat
  cc_y :: rat
  cc_rotation :: rat
  cc_gray :: rat
  cc_opacity :: int
  cc_img :: image
  cc_scale :: rat

definition CollageImage_display :: "collage_image \<Rightarrow> collage_cmd" where
  \<comment> \<open>The image is drawn at its own width and height times \<open>cc_scale\<close>.\<close>
  "CollageImage_display c =
     \<lparr>cc_x = c_x c, cc_y = c_y c, cc_rotation = c_rotation c,
      cc_gray = 255, cc_opacity = c_opacity c,
      cc_img = c_img c, cc_scale = c_scale c\<rparr>"

section \<open>Global state\<close>

text \<open>
  The globals of the sketch, the canvas size, and the part of the runtime the sketch
  drives through \<open>setInterval\<close> and \<open>clearInterval\<close>: the handles of the schedules that are
  live, and the last handle issued.
\<close>

record state =
  tears :: "tear list"
  collageImages :: "collage_image list"
  isCrying :: bool
  startTime :: rat
  emissionRate :: nat
  activeTearSet :: tear_set
  slideshowInterval :: "nat option"
  canvas_width :: rat
  canvas_height :: rat
  timers :: "nat list"
  timer_last :: nat

definition init :: "rat \<Rightarrow> rat \<Rightarrow> state" where
  \<comment> \<open>The globals as declared, after \<open>preload\<close> and \<open>setup\<close> on a window of the given size.\<close>
  "init w h =
     \<lparr>tears = [], collageImages = [], isCrying = False, startTime = 0, emissionRate = 3,
      activeTearSet = SetA, slideshowInterval = None,
      canvas_width = w, canvas_height = h, timers = [], timer_last = 0\<rparr>"

section \<open>Utility and interaction functions\<close>

definition getDurationBasedHue :: "rat \<Rightarrow> state \<Rightarrow> jsnum" where
  "getDurationBasedHue millis s =
     (if \<not> isCrying s then Some 0
      else (let duration = (millis - startTime s) / 1000;
                hueShiftSpeed = 30
            in js_rem (Some (duration * hueShiftSpeed)) 360))"

definition toggleTearSet :: "state \<Rightarrow> state" where
  "toggleTearSet s = s\<lparr>activeTearSet := (if activeTearSet s = SetA then SetB else SetA)\<rparr>"

definition createCollageImage :: "variant \<Rightarrow> collage_rnd \<Rightarrow> state \<Rightarrow> state" where
  "createCollageImage v r s =
     (let im = random_elem (rnd_slide r) (slideshowImages v)
      in s\<lparr>collageImages :=
             collageImages s @ [CollageImage_new (canvas_width s) (canvas_height s) im r]\<rparr>)"

definition setInterval :: "state \<Rightarrow> nat \<times> state" where
  \<comment> \<open>The runtime issues a fresh positive handle and keeps the schedule live.\<close>
  "setInterval s =
     (let h = Suc (timer_last s)
      in (h, s\<lparr>timers := timers s @ [h], timer_last := h\<rparr>))"

definition clearInterval :: "nat \<Rightarrow> state \<Rightarrow> state" where
  "clearInterval h s = s\<lparr>timers := removeAll h (timers s)\<rparr>"

definition startSlideshow :: "variant \<Rightarrow> collage_rnd \<Rightarrow> state \<Rightarrow> state" where
  "startSlideshow v r s =
     (if slideshowInterval s = None then
        (let s1 = createCollageImage v r s;
             (h, s2) = setInterval s1
         in s2\<lparr>slideshowInterval := Some h\<rparr>)
      else s)"

definition stopSlideshow :: "state \<Rightarrow> state" where
  "stopSlideshow s =
     (case slideshowInterval s of
        None \<Rightarrow> s
      | Some h \<Rightarrow>
          (let s1 = clearInterval h s;
               s2 = s1\<lparr>slideshowInterval := None\<rparr>
           in s2\<lparr>collageImages := []\<rparr>))"

definition timer_fired :: "variant \<Rightarrow> nat \<Rightarrow> collage_rnd \<Rightarrow> state \<Rightarrow> state" where
  \<comment> \<open>The runtime runs the callback of a schedule only while the schedule is live.\<close>
  "timer_fired v h r s = (if h \<in> set (timers s) then createCollageImage v r s else s)"

definition startCrying :: "rat \<Rightarrow> state \<Rightarrow> state" where
  "startCrying millis s =
     (if \<not> isCrying s then s\<lparr>isCrying := True, startTime := millis\<rparr> else s)"

definition stopCrying :: "state \<Rightarrow> state" where
  "stopCrying s = (if isCrying s then s\<lparr>isCrying := False\<rparr> else s)"

definition windowResized :: "rat \<Rightarrow> rat \<Rightarrow> state \<Rightarrow> state" where
  "windowResized w h s = s\<lparr>canvas_width := w, canvas_height := h\<rparr>"

definition mousePressed :: "rat \<Rightarrow> state \<Rightarrow> state" where
  "mousePressed millis s = startCrying millis s"

definition mouseReleased :: "state \<Rightarrow> state" where
  "mouseReleased s = stopCrying s"

definition touchStarted :: "rat \<Rightarrow> state \<Rightarrow> state" where
  "touchStarted millis s = startCrying millis s"

definition touchEnded :: "state \<Rightarrow> state" where
  "touchEnded s = stopCrying s"

definition keyPressed :: "variant \<Rightarrow> string \<Rightarrow> rat \<Rightarrow> collage_rnd \<Rightarrow> state \<Rightarrow> state" where
  "keyPressed v key millis r s =
     (if key = '' '' \<and> \<not> isCrying s then startCrying millis s
      else if key = ''s'' then
        (if slideshowInterval s = None then startSlideshow v r s else stopSlideshow s)
      else if key = ''t'' then toggleTearSet s
      else s)"

definition keyReleased :: "string \<Rightarrow> state \<Rightarrow> state" where
  "keyReleased key s = (if key = '' '' \<and> isCrying s then stopCrying s else s)"

section \<open>The frame\<close>

record frame_env =
  frameCount :: nat
  mouseX :: rat
  mouseY :: rat
  millis :: rat
  frameRate :: rat
  fresh_tear :: tear_rnd

datatype draw_cmd = Background nat | DrawCollage collage_cmd | DrawTear tear_cmd

definition splice1 :: "nat \<Rightarrow> 'a list \<Rightarrow> 'a list" where
  \<comment> \<open>\<open>splice(i, 1)\<close>\<close>
  "splice1 i xs = take i xs @ drop (Suc i) xs"

text \<open>
  The loop over the tears runs the index \<open>i\<close> from \<open>tears.length - 1\<close> down to \<open>0\<close>; the
  counter of \<open>tears_loop\<close> is \<open>i + 1\<close>, so the loop starts at \<open>length ts\<close> and index \<open>i\<close> is
  always in range.
\<close>

fun tears_loop :: "(tear \<Rightarrow> tear_cmd) \<Rightarrow> nat \<Rightarrow> tear list \<Rightarrow> draw_cmd list
                     \<Rightarrow> tear list \<times> draw_cmd list" where
  "tears_loop disp 0 ts out = (ts, out)"
| "tears_loop disp (Suc i) ts out =
     (let tear = Tear_update (ts ! i);
          ts1 = ts[i := tear];
          out1 = out @ [DrawTear (disp tear)];
          ts2 = (if t_life tear \<le> 0 then splice1 i ts1 else ts1)
      in tears_loop disp i ts2 out1)"

definition collage_loop :: "collage_image list \<Rightarrow> collage_image list \<times> draw_cmd list" where
  \<comment> \<open>Every item, in order, is updated and then displayed.\<close>
  "collage_loop cs =
     (let cs1 = map CollageImage_update cs
      in (cs1, map (\<lambda>c. DrawCollage (CollageImage_display c)) cs1))"

definition emission_A :: "frame_env \<Rightarrow> state \<Rightarrow> state" where
  \<comment> \<open>Step 2 of \<open>draw\<close>. A remainder by zero is \<open>NaN\<close>, which is not \<open>0\<close>.\<close>
  "emission_A env s =
     (if isCrying s then
        (if emissionRate s \<noteq> 0 \<and> frameCount env mod emissionRate s = 0 then
           s\<lparr>tears := tears s @
              [Tear_new_A (mouseX env) (mouseY env)
                 (tear_images VarA (activeTearSet s)) (fresh_tear env)]\<rparr>
         else s)
      else s)"

definition draw_A :: "frame_env \<Rightarrow> state \<Rightarrow> state \<times> draw_cmd list" where
  "draw_A env s =
     (let s1 = emission_A env s;
          (cs, out2) = collage_loop (collageImages s1);
          s2 = s1\<lparr>collageImages := cs\<rparr>;
          currentHue = getDurationBasedHue (millis env) s2;
          (ts, out3) = tears_loop (Tear_display_A currentHue) (length (tears s2)) (tears s2) []
      in (s2\<lparr>tears := ts\<rparr>, Background 255 # out2 @ out3))"

definition emission_B :: "frame_env \<Rightarrow> state \<Rightarrow> state" where
  \<comment> \<open>Step 2 of \<open>draw\<close> in the second sketch: the divisor is the literal \<open>10\<close>.\<close>
  "emission_B env s =
     (if isCrying s then
        (if frameCount env mod 10 = 0 then
           s\<lparr>tears := tears s @
              [Tear_new_B (mouseX env) (mouseY env)
                 (tear_images VarB (activeTearSet s)) (fresh_tear env)]\<rparr>
         else s)
      else s)"

definition draw_B :: "frame_env \<Rightarrow> state \<Rightarrow> state \<times> draw_cmd list" where
  "draw_B env s =
     (let s1 = emission_B env s;
          (cs, out2) = collage_loop (collageImages s1);
          s2 = s1\<lparr>collageImages := cs\<rparr>;
          (ts, out3) = tears_loop Tear_display_B (length (tears s2)) (tears s2) [];
          s3 = s2\<lparr>tears := ts\<rparr>;
          s4 = (if frameRate env < 30 then s3\<lparr>emissionRate := 20\<rparr>
                else s3\<lparr>emissionRate := 3\<rparr>)
      in (s4, Background 255 # out2 @ out3))"

fun draw :: "variant \<Rightarrow> frame_env \<Rightarrow> state \<Rightarrow> state \<times> draw_cmd list" where
  "draw VarA env s = draw_A env s"
| "draw VarB env s = draw_B env s"

fun emission :: "variant \<Rightarrow> frame_env \<Rightarrow> state \<Rightarrow> state" where
  "emission VarA env s = emission_A env s"
| "emission VarB env s = emission_B env s"

fun Tear_display :: "variant \<Rightarrow> frame_env \<Rightarrow> state \<Rightarrow> tear \<Rightarrow> tear_cmd" where
  "Tear_display VarA env s t = Tear_display_A (getDurationBasedHue (millis env) s) t"
| "Tear_display VarB env s t = Tear_display_B t"

section \<open>Runs of the sketch\<close>

datatype event =
    Frame frame_env
  | MousePressed rat
  | MouseReleased
  | TouchStarted rat
  | TouchEnded
  | KeyPressed string rat collage_rnd
  | KeyReleased string
  | TimerFired nat collage_rnd
  | WindowResized rat rat

fun step :: "variant \<Rightarrow> event \<Rightarrow> state \<Rightarrow> state" where
  "step v (Frame env) s = fst (draw v env s)"
| "step v (MousePressed m) s = mousePressed m s"
| "step v MouseReleased s = mouseReleased s"
| "step v (TouchStarted m) s = touchStarted m s"
| "step v TouchEnded s = touchEnded s"
| "step v (KeyPressed k m r) s = keyPressed v k m r s"
| "step v (KeyReleased k) s = keyReleased k s"
| "step v (TimerFired h r) s = timer_fired v h r s"
| "step v (WindowResized w h) s = windowResized w h s"

fun run :: "variant \<Rightarrow> event list \<Rightarrow> state \<Rightarrow> state" where
  "run v [] s = s"
| "run v (e # es) s = run v es (step v e s)"

text \<open>The states the sketch can be in between two callbacks.\<close>

inductive reachable :: "variant \<Rightarrow> state \<Rightarrow> bool" for v :: variant where
  reachable_init: "reachable v (init w h)"
| reachable_step: "reachable v s \<Longrightarrow> reachable v (step v e s)"

section \<open>Observing a run\<close>

text \<open>The tears and the collage items a frame hands to the runtime, in paint order.\<close>

fun tear_cmds :: "draw_cmd list \<Rightarrow> tear_cmd list" where
  "tear_cmds [] = []"
| "tear_cmds (DrawTear c # xs) = c # tear_cmds xs"
| "tear_cmds (Background g # xs) = tear_cmds xs"
| "tear_cmds (DrawCollage c # xs) = tear_cmds xs"

fun collage_cmds :: "draw_cmd list \<Rightarrow> collage_cmd list" where
  "collage_cmds [] = []"
| "collage_cmds (DrawCollage c # xs) = c # collage_cmds xs"
| "collage_cmds (Background g # xs) = collage_cmds xs"
| "collage_cmds (DrawTear c # xs) = collage_cmds xs"

text \<open>The number of frames among the events of a run.\<close>

fun frames :: "event list \<Rightarrow> nat" where
  "frames [] = 0"
| "frames (Frame env # es) = Suc (frames es)"
| "frames (e # es) = frames es"

text \<open>
  A frame with the given counter, clock and measured frame rate, the pointer at
  \<open>(100, 200)\<close> and fixed draws for a tear made in it.
\<close>

definition frame_at :: "nat \<Rightarrow> rat \<Rightarrow> rat \<Rightarrow> frame_env" where
  "frame_at n ms fps =
     \<lparr>frameCount = n, mouseX = 100, mouseY = 200, millis = ms, frameRate = fps,
      fresh_tear = \<lparr>rnd_size = 1 / 2, rnd_vx = 1 / 2, rnd_vy = 1 / 2, rnd_img = 1\<rparr>\<rparr>"

definition slide_at :: "nat \<Rightarrow> collage_rnd" where
  "slide_at k = \<lparr>rnd_slide = k, rnd_scale = 1 / 2, rnd_x = 1 / 2, rnd_y = 1 / 2\<rparr>"

section \<open>The frame as a whole\<close>

lemma tears_loop_eq:
  "n \<le> length ts \<Longrightarrow> tears_loop disp n ts out =
     (filter (\<lambda>t. \<not> t_life t \<le> 0) (map Tear_update (take n ts)) @ drop n ts,
      out @ rev (map (\<lambda>t. DrawTear (disp (Tear_update t))) (take n ts)))"
proof (induction n arbitrary: ts out)
  case 0
  then show ?case by simp
next
  case (Suc n)
  then have n: "n < length ts" by simp
  let ?tear = "Tear_update (ts ! n)"
  have tk: "take (Suc n) ts = take n ts @ [ts ! n]"
    using n by (simp add: take_Suc_conv_app_nth)
  show ?case
  proof (cases "t_life ?tear \<le> 0")
    case True
    let ?ts2 = "splice1 n (ts[n := ?tear])"
    have l: "n \<le> length ?ts2" using n by (simp add: splice1_def)
    have a: "take n ?ts2 = take n ts" using n by (simp add: splice1_def)
    have b: "drop n ?ts2 = drop (Suc n) ts" using n by (simp add: splice1_def)
    show ?thesis using True Suc.IH[OF l] by (simp add: Let_def a b tk)
  next
    case False
    let ?ts2 = "ts[n := ?tear]"
    have l: "n \<le> length ?ts2" using n by simp
    have a: "take n ?ts2 = take n ts" by simp
    have b: "drop n ?ts2 = ?tear # drop (Suc n) ts" using n
      by (simp add: Cons_nth_drop_Suc[symmetric])
    show ?thesis using False Suc.IH[OF l] by (simp add: Let_def a b tk)
  qed
qed

lemma tears_loop_all:
  "tears_loop disp (length ts) ts [] =
     (filter (\<lambda>t. 0 < t_life t) (map Tear_update ts),
      rev (map (\<lambda>t. DrawTear (disp (Tear_update t))) ts))"
  by (simp add: tears_loop_eq not_le)

lemma emission_A_fields [simp]:
  "collageImages (emission_A env s) = collageImages s"
  "isCrying (emission_A env s) = isCrying s"
  "startTime (emission_A env s) = startTime s"
  "emissionRate (emission_A env s) = emissionRate s"
  "activeTearSet (emission_A env s) = activeTearSet s"
  "slideshowInterval (emission_A env s) = slideshowInterval s"
  "timers (emission_A env s) = timers s"
  by (simp_all add: emission_A_def)

lemma emission_B_fields [simp]:
  "collageImages (emission_B env s) = collageImages s"
  "isCrying (emission_B env s) = isCrying s"
  "startTime (emission_B env s) = startTime s"
  "emissionRate (emission_B env s) = emissionRate s"
  "activeTearSet (emission_B env s) = activeTearSet s"
  "slideshowInterval (emission_B env s) = slideshowInterval s"
  "timers (emission_B env s) = timers s"
  by (simp_all add: emission_B_def)

lemma draw_A_eq:
  "draw_A env s =
     ((emission_A env s)
        \<lparr>collageImages := map CollageImage_update (collageImages s),
         tears := filter (\<lambda>t. 0 < t_life t) (map Tear_update (tears (emission_A env s)))\<rparr>,
      Background 255 #
      map (\<lambda>c. DrawCollage (CollageImage_display (CollageImage_update c))) (collageImages s) @
      rev (map (\<lambda>t. DrawTear (Tear_display_A (getDurationBasedHue (millis env) s) (Tear_update t)))
             (tears (emission_A env s))))"
  by (simp add: draw_A_def collage_loop_def tears_loop_all Let_def
        getDurationBasedHue_def comp_def)

lemma draw_B_eq:
  "draw_B env s =
     ((emission_B env s)
        \<lparr>collageImages := map CollageImage_update (collageImages s),
         tears := filter (\<lambda>t. 0 < t_life t) (map Tear_update (tears (emission_B env s))),
         emissionRate := (if frameRate env < 30 then 20 else 3)\<rparr>,
      Background 255 #
      map (\<lambda>c. DrawCollage (CollageImage_display (CollageImage_update c))) (collageImages s) @
      rev (map (\<lambda>t. DrawTear (Tear_display_B (Tear_update t))) (tears (emission_B env s))))"
  by (simp add: draw_B_def collage_loop_def tears_loop_all Let_def comp_def)

lemma draw_eq:
  "draw v env s =
     ((emission v env s)
        \<lparr>collageImages := map CollageImage_update (collageImages s),
         tears := filter (\<lambda>t. 0 < t_life t) (map Tear_update (tears (emission v env s))),
         emissionRate := (case v of VarA \<Rightarrow> emissionRate s
                          | VarB \<Rightarrow> if frameRate env < 30 then 20 else 3)\<rparr>,
      Background 255 #
      map (\<lambda>c. DrawCollage (CollageImage_display (CollageImage_update c))) (collageImages s) @
      rev (map (\<lambda>t. DrawTear (Tear_display v env s (Tear_update t))) (tears (emission v env s))))"
  by (cases v) (simp_all add: draw_A_eq draw_B_eq)

lemma Tear_update_life [simp]: "t_life (Tear_update t) = t_life t - 1"
  by (simp add: Tear_update_def Let_def)

lemma Tear_update_lifespan [simp]: "t_lifespan (Tear_update t) = t_lifespan t"
  by (simp add: Tear_update_def Let_def)

lemma Tear_update_img [simp]: "t_img (Tear_update t) = t_img t"
  by (simp add: Tear_update_def Let_def)

lemmas handler_defs =
  mousePressed_def mouseReleased_def touchStarted_def touchEnded_def keyPressed_def
  keyReleased_def timer_fired_def windowResized_def startCrying_def stopCrying_def
  startSlideshow_def stopSlideshow_def toggleTearSet_def createCollageImage_def
  setInterval_def clearInterval_def

lemma reachable_run: "reachable v s \<Longrightarrow> reachable v (run v es s)"
  by (induction es arbitrary: s) (simp_all add: reachable_step)

section \<open>Invariants of the reachable states\<close>

lemma emission_tears_life:
  assumes "\<forall>t\<in>set (tears s). 0 < t_life t \<and> t_life t \<le> t_lifespan t"
  shows "\<forall>t\<in>set (tears (emission v env s)). 0 < t_life t \<and> t_life t \<le> t_lifespan t"
  using assms
  by (cases v) (auto simp: emission_A_def emission_B_def Tear_new_A_def Tear_new_B_def)

lemma frame_tears_life:
  assumes "\<forall>t\<in>set (tears s). 0 < t_life t \<and> t_life t \<le> t_lifespan t"
  shows "\<forall>t\<in>set (tears (fst (draw v env s))). 0 < t_life t \<and> t_life t \<le> t_lifespan t"
proof -
  have "\<forall>t\<in>set (tears (emission v env s)). 0 < t_life t \<and> t_life t \<le> t_lifespan t"
    using assms by (rule emission_tears_life)
  then show ?thesis
    by (auto simp: draw_eq)
qed

lemma other_events_tears:
  "\<forall>env. e \<noteq> Frame env \<Longrightarrow> tears (step v e s) = tears s"
  by (cases e) (auto simp: handler_defs Let_def split: option.splits)

lemma step_tears_life:
  assumes "\<forall>t\<in>set (tears s). 0 < t_life t \<and> t_life t \<le> t_lifespan t"
  shows "\<forall>t\<in>set (tears (step v e s)). 0 < t_life t \<and> t_life t \<le> t_lifespan t"
proof (cases "\<exists>env. e = Frame env")
  case True
  then obtain env where "e = Frame env" by blast
  then show ?thesis using frame_tears_life[OF assms] by simp
next
  case False
  then show ?thesis using assms by (simp add: other_events_tears)
qed

lemma reachable_tears_life:
  "reachable v s \<Longrightarrow> \<forall>t\<in>set (tears s). 0 < t_life t \<and> t_life t \<le> t_lifespan t"
proof (induction rule: reachable.induct)
  case (reachable_init w h)
  show ?case by (simp add: init_def)
next
  case (reachable_step s e)
  then show ?case by (intro step_tears_life)
qed

lemma CollageImage_update_opacity:
  assumes "0 \<le> c_opacity c" "c_opacity c \<le> 255" "5 dvd c_opacity c"
  shows "0 \<le> c_opacity (CollageImage_update c) \<and> c_opacity (CollageImage_update c) \<le> 255
         \<and> 5 dvd c_opacity (CollageImage_update c)"
proof (cases "c_opacity c < 255")
  case True
  from assms(3) obtain k where k: "c_opacity c = 5 * k" by (auto simp: dvd_def)
  with True have "k < 51" by simp
  then have "5 * k + 5 \<le> (255::int)" by simp
  with True assms k show ?thesis by (simp add: CollageImage_update_def)
next
  case False
  with assms show ?thesis by (simp add: CollageImage_update_def)
qed

lemma other_events_collage:
  assumes "\<forall>c\<in>set (collageImages s). 0 \<le> c_opacity c \<and> c_opacity c \<le> 255 \<and> 5 dvd c_opacity c"
    and "\<forall>env. e \<noteq> Frame env"
  shows "\<forall>c\<in>set (collageImages (step v e s)).
           0 \<le> c_opacity c \<and> c_opacity c \<le> 255 \<and> 5 dvd c_opacity c"
  using assms
  by (cases e)
     (auto simp: handler_defs Let_def CollageImage_new_def split: option.splits)

lemma step_collage_opacity:
  assumes "\<forall>c\<in>set (collageImages s). 0 \<le> c_opacity c \<and> c_opacity c \<le> 255 \<and> 5 dvd c_opacity c"
  shows "\<forall>c\<in>set (collageImages (step v e s)).
           0 \<le> c_opacity c \<and> c_opacity c \<le> 255 \<and> 5 dvd c_opacity c"
proof (cases "\<exists>env. e = Frame env")
  case True
  then obtain env where "e = Frame env" by blast
  then show ?thesis using assms CollageImage_update_opacity
    by (auto simp: draw_eq)
next
  case False
  then show ?thesis using other_events_collage[OF assms] by simp
qed

lemma reachable_collage_opacity:
  "reachable v s \<Longrightarrow>
     \<forall>c\<in>set (collageImages s). 0 \<le> c_opacity c \<and> c_opacity c \<le> 255 \<and> 5 dvd c_opacity c"
proof (induction rule: reachable.induct)
  case (reachable_init w h)
  show ?case by (simp add: init_def)
next
  case (reachable_step s e)
  then show ?case by (intro step_collage_opacity)
qed

lemma step_timers:
  assumes "timers s = (case slideshowInterval s of None \<Rightarrow> [] | Some h \<Rightarrow> [h])"
  shows "timers (step v e s) = (case slideshowInterval (step v e s) of None \<Rightarrow> [] | Some h \<Rightarrow> [h])"
proof (cases e)
  case (Frame env)
  then show ?thesis using assms by (cases v) (simp_all add: draw_A_eq draw_B_eq)
qed (use assms in \<open>auto simp: handler_defs Let_def split: option.splits\<close>)

lemma reachable_timers:
  "reachable v s \<Longrightarrow> timers s = (case slideshowInterval s of None \<Rightarrow> [] | Some h \<Rightarrow> [h])"
proof (induction rule: reachable.induct)
  case (reachable_init w h)
  show ?case by (simp add: init_def)
next
  case (reachable_step s e)
  then show ?case by (intro step_timers)
qed

section \<open>Toggling the active image set\<close>

text \<open>
  C9: applying \<open>toggleTearSet\<close> twice in succession restores the active image set (and the
  whole state) from any state; the operation neither reads nor writes the emitting flag, and
  the key \<open>t\<close> reaches it whether or not the sketch is emitting.
\<close>

theorem toggleTearSet_twice:
  "toggleTearSet (toggleTearSet s) = s
   \<and> activeTearSet (toggleTearSet (toggleTearSet s)) = activeTearSet s
   \<and> isCrying (toggleTearSet s) = isCrying s
   \<and> activeTearSet (toggleTearSet (s\<lparr>isCrying := b\<rparr>)) = activeTearSet (toggleTearSet s)
   \<and> keyPressed v ''t'' m r s = toggleTearSet s"
  by (cases "activeTearSet s") (simp_all add: toggleTearSet_def keyPressed_def)

section \<open>Starting and stopping emission\<close>

text \<open>
  C10: while the sketch is emitting, each stop trigger (\<open>stopCrying\<close>, mouse release, touch
  end, release of the space key) changes the emitting flag and nothing else, so the tears,
  the collage items, the recorded start time and the active image set stay as they are; the
  next frame then advances every tear and removes the expired ones as usual, without
  emitting. Each start trigger received while emitting leaves the state, including the
  start time, unchanged.
\<close>

theorem stop_emission_changes_only_flag:
  assumes "isCrying s"
  shows "stopCrying s = s\<lparr>isCrying := False\<rparr>
         \<and> mouseReleased s = s\<lparr>isCrying := False\<rparr>
         \<and> touchEnded s = s\<lparr>isCrying := False\<rparr>
         \<and> keyReleased '' '' s = s\<lparr>isCrying := False\<rparr>
         \<and> tears (stopCrying s) = tears s
         \<and> collageImages (stopCrying s) = collageImages s
         \<and> startTime (stopCrying s) = startTime s
         \<and> activeTearSet (stopCrying s) = activeTearSet s
         \<and> tears (fst (draw v env (stopCrying s)))
             = filter (\<lambda>t. 0 < t_life t) (map Tear_update (tears s))
         \<and> startCrying m s = s
         \<and> mousePressed m s = s
         \<and> touchStarted m s = s
         \<and> keyPressed v '' '' m r s = s"
proof -
  have stop: "stopCrying s = s\<lparr>isCrying := False\<rparr>"
    using assms by (simp add: stopCrying_def)
  have frame: "tears (fst (draw v env (s\<lparr>isCrying := False\<rparr>)))
                 = filter (\<lambda>t. 0 < t_life t) (map Tear_update (tears s))"
    by (cases v) (simp_all add: draw_A_eq draw_B_eq emission_A_def emission_B_def)
  have start: "startCrying m s = s"
    using assms by (simp add: startCrying_def)
  have key: "keyPressed v '' '' m r s = s"
    using assms by (simp add: keyPressed_def)
  show ?thesis
    using stop frame start key assms
    by (simp add: mouseReleased_def touchEnded_def keyReleased_def mousePressed_def
          touchStarted_def)
qed

theorem stop_emission_changes_only_flag_witness:
  "isCrying (mousePressed 0 (init 800 600))
   \<and> mouseReleased (mousePressed 0 (init 800 600))
       = (mousePressed 0 (init 800 600))\<lparr>isCrying := False\<rparr>
   \<and> startTime (stopCrying (mousePressed 0 (init 800 600)))
       = startTime (mousePressed 0 (init 800 600))
   \<and> mousePressed 5 (mousePressed 0 (init 800 600)) = mousePressed 0 (init 800 600)"
proof -
  have h: "isCrying (mousePressed 0 (init 800 600))"
    by (simp add: mousePressed_def startCrying_def init_def)
  show ?thesis
    using h stop_emission_changes_only_flag [OF h, of VarA _ 5 _]
    by blast
qed

section \<open>The collage spawner\<close>

text \<open>
  C6: \<open>stopSlideshow\<close> on a running spawner (handle \<open>h\<close>) first cancels the schedule, leaving
  the collection as it was, and then sets the handle to null and empties the collection,
  whatever the opacities of the items; afterwards the handle is null, the collection is
  empty, the schedule \<open>h\<close> is no longer live and its callback can add nothing. In a reachable
  state no schedule at all is live after the call. On a stopped spawner the call changes
  nothing.
\<close>

theorem stopSlideshow_cancels_then_clears:
  "(slideshowInterval s = Some h \<longrightarrow>
      stopSlideshow s = (clearInterval h s)\<lparr>slideshowInterval := None, collageImages := []\<rparr>
      \<and> h \<notin> set (timers (clearInterval h s))
      \<and> collageImages (clearInterval h s) = collageImages s
      \<and> slideshowInterval (stopSlideshow s) = None
      \<and> collageImages (stopSlideshow s) = []
      \<and> h \<notin> set (timers (stopSlideshow s))
      \<and> timer_fired v h r (stopSlideshow s) = stopSlideshow s)
   \<and> (reachable v s \<longrightarrow> timers (stopSlideshow s) = [])
   \<and> (slideshowInterval s = None \<longrightarrow> stopSlideshow s = s)"
proof -
  have "reachable v s \<Longrightarrow> timers (stopSlideshow s) = []"
    using reachable_timers [of v s]
    by (simp add: stopSlideshow_def clearInterval_def Let_def split: option.splits)
  then show ?thesis
    by (auto simp: stopSlideshow_def clearInterval_def timer_fired_def Let_def)
qed

theorem stopSlideshow_cancels_then_clears_witness:
  "slideshowInterval (keyPressed VarA ''s'' 0 \<lparr>rnd_slide = 0, rnd_scale = 0, rnd_x = 0, rnd_y = 0\<rparr>
     (init 800 600)) = Some 1
   \<and> length (collageImages (keyPressed VarA ''s'' 0
       \<lparr>rnd_slide = 0, rnd_scale = 0, rnd_x = 0, rnd_y = 0\<rparr> (init 800 600))) = 1
   \<and> collageImages (stopSlideshow (keyPressed VarA ''s'' 0
       \<lparr>rnd_slide = 0, rnd_scale = 0, rnd_x = 0, rnd_y = 0\<rparr> (init 800 600))) = []
   \<and> slideshowInterval (stopSlideshow (keyPressed VarA ''s'' 0
       \<lparr>rnd_slide = 0, rnd_scale = 0, rnd_x = 0, rnd_y = 0\<rparr> (init 800 600))) = None
   \<and> timers (stopSlideshow (keyPressed VarA ''s'' 0
       \<lparr>rnd_slide = 0, rnd_scale = 0, rnd_x = 0, rnd_y = 0\<rparr> (init 800 600))) = []
   \<and> slideshowInterval (init 800 600) = None
   \<and> stopSlideshow (init 800 600) = init 800 600"
proof -
  let ?r = "\<lparr>rnd_slide = 0, rnd_scale = 0, rnd_x = 0, rnd_y = 0\<rparr>"
  let ?s = "keyPressed VarA ''s'' 0 ?r (init 800 600)"
  have h: "slideshowInterval ?s = Some 1"
    by (simp add: keyPressed_def startSlideshow_def createCollageImage_def setInterval_def
          init_def Let_def)
  have n: "length (collageImages ?s) = 1"
    by (simp add: keyPressed_def startSlideshow_def createCollageImage_def setInterval_def
          init_def Let_def)
  have "reachable VarA (step VarA (KeyPressed ''s'' 0 ?r) (init 800 600))"
    by (intro reachable_step reachable_init)
  then have re: "reachable VarA ?s" by simp
  have i: "slideshowInterval (init 800 600) = None" by (simp add: init_def)
  show ?thesis
    using h n re i
      stopSlideshow_cancels_then_clears [of ?s 1 VarA ?r]
      stopSlideshow_cancels_then_clears [of "init 800 600" 1 VarA ?r]
    by blast
qed

text \<open>
  C7: \<open>startSlideshow\<close> on a running spawner changes nothing, so it adds no item and no
  schedule, and starting twice in a row is the same as starting once. In every reachable
  state at most one schedule is live: none when the handle is null, and otherwise exactly
  the one the handle names. Starting a stopped spawner adds one item at once and one
  schedule.
\<close>

theorem startSlideshow_single_schedule:
  "startSlideshow v r2 (startSlideshow v r1 s) = startSlideshow v r1 s
   \<and> (slideshowInterval s \<noteq> None \<longrightarrow> startSlideshow v r s = s)
   \<and> (slideshowInterval s = None \<longrightarrow>
        slideshowInterval (startSlideshow v r s) = Some (Suc (timer_last s))
        \<and> timers (startSlideshow v r s) = timers s @ [Suc (timer_last s)]
        \<and> collageImages (startSlideshow v r s)
            = collageImages s @ [CollageImage_new (canvas_width s) (canvas_height s)
                                   (random_elem (rnd_slide r) (slideshowImages v)) r])
   \<and> (reachable v s \<longrightarrow>
        length (timers s) \<le> 1
        \<and> timers s = (case slideshowInterval s of None \<Rightarrow> [] | Some h \<Rightarrow> [h])
        \<and> length (timers (startSlideshow v r2 (startSlideshow v r1 s))) = 1)"
proof -
  have twice: "startSlideshow v r2 (startSlideshow v r1 s) = startSlideshow v r1 s"
    by (simp add: startSlideshow_def createCollageImage_def setInterval_def Let_def)
  have running: "slideshowInterval s \<noteq> None \<Longrightarrow> startSlideshow v r s = s"
    by (auto simp: startSlideshow_def)
  have stopped: "slideshowInterval s = None \<Longrightarrow>
        slideshowInterval (startSlideshow v r s) = Some (Suc (timer_last s))
        \<and> timers (startSlideshow v r s) = timers s @ [Suc (timer_last s)]
        \<and> collageImages (startSlideshow v r s)
            = collageImages s @ [CollageImage_new (canvas_width s) (canvas_height s)
                                   (random_elem (rnd_slide r) (slideshowImages v)) r]"
    by (simp add: startSlideshow_def createCollageImage_def setInterval_def Let_def)
  have one: "length (timers s) \<le> 1
        \<and> timers s = (case slideshowInterval s of None \<Rightarrow> [] | Some h \<Rightarrow> [h])
        \<and> length (timers (startSlideshow v r2 (startSlideshow v r1 s))) = 1"
    if re: "reachable v s"
  proof -
    have t: "timers s = (case slideshowInterval s of None \<Rightarrow> [] | Some h \<Rightarrow> [h])"
      using re by (rule reachable_timers)
    have "length (timers (startSlideshow v r1 s)) = 1"
      using t
      by (cases "slideshowInterval s")
         (simp_all add: startSlideshow_def createCollageImage_def setInterval_def Let_def)
    with t twice show ?thesis by (simp split: option.splits)
  qed
  show ?thesis using twice running stopped one by blast
qed

theorem startSlideshow_single_schedule_witness:
  "reachable VarB (startSlideshow VarB \<lparr>rnd_slide = 4, rnd_scale = 0, rnd_x = 0, rnd_y = 0\<rparr>
     (init 800 600))
   \<and> slideshowInterval (startSlideshow VarB \<lparr>rnd_slide = 4, rnd_scale = 0, rnd_x = 0, rnd_y = 0\<rparr>
       (init 800 600)) = Some 1
   \<and> timers (startSlideshow VarB \<lparr>rnd_slide = 4, rnd_scale = 0, rnd_x = 0, rnd_y = 0\<rparr>
       (init 800 600)) = [1]
   \<and> startSlideshow VarB \<lparr>rnd_slide = 2, rnd_scale = 1, rnd_x = 1, rnd_y = 1\<rparr>
       (startSlideshow VarB \<lparr>rnd_slide = 4, rnd_scale = 0, rnd_x = 0, rnd_y = 0\<rparr> (init 800 600))
     = startSlideshow VarB \<lparr>rnd_slide = 4, rnd_scale = 0, rnd_x = 0, rnd_y = 0\<rparr> (init 800 600)"
proof -
  let ?r = "\<lparr>rnd_slide = 4, rnd_scale = 0, rnd_x = 0, rnd_y = 0\<rparr>"
  let ?r2 = "\<lparr>rnd_slide = 2, rnd_scale = 1, rnd_x = 1, rnd_y = 1\<rparr>"
  let ?s = "startSlideshow VarB ?r (init 800 600)"
  have "reachable VarB (step VarB (KeyPressed ''s'' 0 ?r) (init 800 600))"
    by (intro reachable_step reachable_init)
  then have re: "reachable VarB ?s"
    by (simp add: keyPressed_def init_def)
  have i: "slideshowInterval (init 800 600) = None" "timer_last (init 800 600) = 0"
    "timers (init 800 600) = []"
    by (simp_all add: init_def)
  have h: "slideshowInterval ?s = Some 1 \<and> timers ?s = [1]"
    using i startSlideshow_single_schedule [of VarB ?r ?r "init 800 600" ?r] by simp
  then have ne: "slideshowInterval ?s \<noteq> None" by simp
  show ?thesis
    using re h ne startSlideshow_single_schedule [of VarB ?r2 ?r "init 800 600" ?r2]
    by blast
qed

section \<open>What a frame paints\<close>

lemma tear_cmds_append [simp]: "tear_cmds (xs @ ys) = tear_cmds xs @ tear_cmds ys"
  by (induction xs rule: tear_cmds.induct) simp_all

lemma tear_cmds_collage [simp]: "tear_cmds (map (\<lambda>c. DrawCollage (f c)) cs) = []"
  by (induction cs) simp_all

lemma tear_cmds_tears [simp]: "tear_cmds (map (\<lambda>t. DrawTear (f t)) ts) = map f ts"
  by (induction ts) simp_all

lemma collage_cmds_append [simp]: "collage_cmds (xs @ ys) = collage_cmds xs @ collage_cmds ys"
  by (induction xs rule: collage_cmds.induct) simp_all

lemma collage_cmds_collage [simp]: "collage_cmds (map (\<lambda>c. DrawCollage (f c)) cs) = map f cs"
  by (induction cs) simp_all

lemma collage_cmds_tears [simp]: "collage_cmds (map (\<lambda>t. DrawTear (f t)) ts) = []"
  by (induction ts) simp_all

lemma draw_tear_cmds:
  "tear_cmds (snd (draw v env s))
     = rev (map (\<lambda>t. Tear_display v env s (Tear_update t)) (tears (emission v env s)))"
  by (simp add: draw_eq rev_map)

lemma draw_collage_cmds:
  "collage_cmds (snd (draw v env s))
     = map (\<lambda>c. CollageImage_display (CollageImage_update c)) (collageImages s)"
  by (simp add: draw_eq rev_map)

section \<open>The life of a tear\<close>

lemma funpow_life: "t_life ((Tear_update ^^ k) t) = t_life t - int k"
  by (induction k) simp_all

lemma filter_age:
  "filter (\<lambda>t. 0 < t_life t) (map (Tear_update ^^ k) (filter (\<lambda>t. 0 < t_life t) (map Tear_update ts)))
     = filter (\<lambda>t. 0 < t_life t) (map (Tear_update ^^ Suc k) ts)"
  by (induction ts) (auto simp: funpow_swap1 funpow_life)

lemma emission_tears_append: "\<exists>new. tears (emission v env s) = tears s @ new"
  by (cases v) (auto simp: emission_A_def emission_B_def)

lemma run_tears:
  assumes "\<forall>t\<in>set (tears s). 0 < t_life t \<and> t_life t \<le> t_lifespan t"
  shows "\<exists>newer. tears (run v es s)
      = filter (\<lambda>t. 0 < t_life t) (map (Tear_update ^^ frames es) (tears s)) @ newer"
  using assms
proof (induction es arbitrary: s)
  case Nil
  then have "filter (\<lambda>t. 0 < t_life t) (tears s) = tears s"
    by (simp add: filter_id_conv)
  then show ?case by simp
next
  case (Cons e es)
  have inv: "\<forall>t\<in>set (tears (step v e s)). 0 < t_life t \<and> t_life t \<le> t_lifespan t"
    using Cons.prems by (rule step_tears_life)
  obtain newer where newer: "tears (run v es (step v e s))
      = filter (\<lambda>t. 0 < t_life t) (map (Tear_update ^^ frames es) (tears (step v e s))) @ newer"
    using Cons.IH [OF inv] by blast
  show ?case
  proof (cases "\<exists>env. e = Frame env")
    case True
    then obtain env where e: "e = Frame env" by blast
    obtain new where new: "tears (emission v env s) = tears s @ new"
      using emission_tears_append by blast
    show ?thesis using newer
      by (simp add: e draw_eq new filter_age del: funpow.simps)
  next
    case False
    then have "frames (e # es) = frames es" by (cases e) simp_all
    moreover have "tears (step v e s) = tears s"
      using False by (simp add: other_events_tears)
    ultimately show ?thesis using newer by simp
  qed
qed


text \<open>
  C3: \<open>Tear_update\<close> lowers the remaining life by exactly one. In every reachable state each
  tear of the active set has a remaining life from \<open>1\<close> to its lifespan. In a frame every tear
  present after the emission step is updated and displayed once, at a remaining life from \<open>0\<close>
  to its lifespan, and it stays in the set exactly when that life is not \<open>0\<close>: a tear is
  removed in the first frame that brings its life to \<open>0\<close>, after it was displayed at that
  value. Over a whole run, the tears of the starting state still present are those whose
  life exceeds the number of frames run, each aged by that many updates, followed by the
  tears emitted since.
\<close>

theorem particle_lifecycle:
  "t_life (Tear_update t) = t_life t - 1
   \<and> (reachable v s \<longrightarrow>
        (\<forall>t\<in>set (tears s). 0 < t_life t \<and> t_life t \<le> t_lifespan t)
        \<and> (\<forall>t\<in>set (tears (emission v env s)).
              0 \<le> t_life (Tear_update t) \<and> t_life (Tear_update t) \<le> t_lifespan (Tear_update t)
              \<and> (Tear_update t \<in> set (tears (fst (draw v env s))) \<longleftrightarrow> t_life (Tear_update t) \<noteq> 0))
        \<and> tears (fst (draw v env s))
            = filter (\<lambda>t. 0 < t_life t) (map Tear_update (tears (emission v env s)))
        \<and> tear_cmds (snd (draw v env s))
            = rev (map (\<lambda>t. Tear_display v env s (Tear_update t)) (tears (emission v env s)))
        \<and> (\<exists>newer. tears (run v es s)
              = filter (\<lambda>t. 0 < t_life t) (map (Tear_update ^^ frames es) (tears s)) @ newer))"
proof -
  have "(\<forall>t\<in>set (tears s). 0 < t_life t \<and> t_life t \<le> t_lifespan t)
        \<and> (\<forall>t\<in>set (tears (emission v env s)).
              0 \<le> t_life (Tear_update t) \<and> t_life (Tear_update t) \<le> t_lifespan (Tear_update t)
              \<and> (Tear_update t \<in> set (tears (fst (draw v env s))) \<longleftrightarrow> t_life (Tear_update t) \<noteq> 0))
        \<and> (\<exists>newer. tears (run v es s)
              = filter (\<lambda>t. 0 < t_life t) (map (Tear_update ^^ frames es) (tears s)) @ newer)"
    if re: "reachable v s"
  proof -
    have inv: "\<forall>t\<in>set (tears s). 0 < t_life t \<and> t_life t \<le> t_lifespan t"
      using re by (rule reachable_tears_life)
    then have em: "\<forall>t\<in>set (tears (emission v env s)). 0 < t_life t \<and> t_life t \<le> t_lifespan t"
      by (rule emission_tears_life)
    have mid: "\<forall>t\<in>set (tears (emission v env s)).
              0 \<le> t_life (Tear_update t) \<and> t_life (Tear_update t) \<le> t_lifespan (Tear_update t)
              \<and> (Tear_update t \<in> set (tears (fst (draw v env s))) \<longleftrightarrow> t_life (Tear_update t) \<noteq> 0)"
    proof
      fix t assume t: "t \<in> set (tears (emission v env s))"
      with em have "0 < t_life t" "t_life t \<le> t_lifespan t" by auto
      moreover have "Tear_update t \<in> Tear_update ` set (tears (emission v env s))"
        using t by simp
      ultimately show "0 \<le> t_life (Tear_update t) \<and> t_life (Tear_update t) \<le> t_lifespan (Tear_update t)
              \<and> (Tear_update t \<in> set (tears (fst (draw v env s))) \<longleftrightarrow> t_life (Tear_update t) \<noteq> 0)"
        by (auto simp: draw_eq)
    qed
    show ?thesis using inv mid run_tears [OF inv] by blast
  qed
  moreover have "tears (fst (draw v env s))
            = filter (\<lambda>t. 0 < t_life t) (map Tear_update (tears (emission v env s)))"
    by (simp add: draw_eq)
  ultimately show ?thesis
    using draw_tear_cmds [of v env s] by simp
qed

theorem particle_lifecycle_witness:
  "reachable VarA (run VarA [MousePressed 0, Frame (frame_at 3 50 60)] (init 800 600))
   \<and> map t_life (tears (run VarA [MousePressed 0, Frame (frame_at 3 50 60)] (init 800 600))) = [299]
   \<and> map t_lifespan (tears (run VarA [MousePressed 0, Frame (frame_at 3 50 60)] (init 800 600))) = [300]
   \<and> map t_life (tears (fst (draw VarA (frame_at 4 66 60)
        (run VarA [MousePressed 0, Frame (frame_at 3 50 60)] (init 800 600))))) = [298]
   \<and> length (tear_cmds (snd (draw VarA (frame_at 4 66 60)
        (run VarA [MousePressed 0, Frame (frame_at 3 50 60)] (init 800 600))))) = 1"
proof -
  let ?p = "mousePressed 0 (init 800 600)"
  let ?s = "run VarA [MousePressed 0, Frame (frame_at 3 50 60)] (init 800 600)"
  have re0: "reachable VarA (init 800 600)" by (rule reachable_init)
  have re: "reachable VarA ?s" by (rule reachable_run [OF reachable_init])
  have s0: "reachable VarA ?p"
    using reachable_step [OF re0, of "MousePressed 0"] by simp
  have em0: "map t_life (tears (emission VarA (frame_at 3 50 60) ?p)) = [300]
             \<and> map t_lifespan (tears (emission VarA (frame_at 3 50 60) ?p)) = [300]"
    by (simp add: emission_A_def frame_at_def mousePressed_def startCrying_def init_def
          Tear_new_A_def)
  have "tears ?s = filter (\<lambda>t. 0 < t_life t)
                    (map Tear_update (tears (emission VarA (frame_at 3 50 60) ?p)))"
    using s0 particle_lifecycle [of _ VarA ?p "frame_at 3 50 60" "[]"] by simp
  then have ts: "map t_life (tears ?s) = [299] \<and> map t_lifespan (tears ?s) = [300]"
    using em0 by (auto simp: map_eq_Cons_conv)
  have "emissionRate ?s = 3" "\<not> (frameCount (frame_at 4 66 60) mod 3 = 0)"
    by (simp_all add: draw_A_eq mousePressed_def startCrying_def init_def frame_at_def)
  then have em: "tears (emission VarA (frame_at 4 66 60) ?s) = tears ?s"
    by (simp add: emission_A_def del: run.simps)
  have nx: "tears (fst (draw VarA (frame_at 4 66 60) ?s))
              = filter (\<lambda>t. 0 < t_life t) (map Tear_update (tears ?s))
            \<and> tear_cmds (snd (draw VarA (frame_at 4 66 60) ?s))
              = rev (map (\<lambda>t. Tear_display VarA (frame_at 4 66 60) ?s (Tear_update t)) (tears ?s))"
    using re em particle_lifecycle [of _ VarA ?s "frame_at 4 66 60" "[]"] by simp
  have "map t_life (tears (fst (draw VarA (frame_at 4 66 60) ?s))) = [298]"
    using ts nx by (auto simp: map_eq_Cons_conv)
  moreover have "length (tear_cmds (snd (draw VarA (frame_at 4 66 60) ?s))) = 1"
    using ts nx by (auto simp: map_eq_Cons_conv)
  ultimately show ?thesis using re ts by blast
qed

section \<open>The opacity of a collage item\<close>

lemma CollageImage_update_step:
  "c_opacity (CollageImage_update c) = (if c_opacity c < 255 then c_opacity c + 5 else c_opacity c)"
  by (simp add: CollageImage_update_def)

lemma CollageImage_update_funpow:
  "c_opacity c = 0 \<Longrightarrow> c_opacity ((CollageImage_update ^^ n) c) = min (5 * int n) 255"
proof (induction n)
  case 0
  then show ?case by simp
next
  case (Suc n)
  then have ih: "c_opacity ((CollageImage_update ^^ n) c) = min (5 * int n) 255" by simp
  show ?case
    by (cases "n < 51") (simp_all add: CollageImage_update_step ih min_def)
qed

lemma step_collage_monotone:
  "collageImages (step v e s) = []
   \<or> (length (collageImages s) \<le> length (collageImages (step v e s))
      \<and> (\<forall>i<length (collageImages s).
            c_opacity (collageImages s ! i) \<le> c_opacity (collageImages (step v e s) ! i)))"
proof (cases e)
  case (Frame env)
  then show ?thesis by (auto simp: draw_eq CollageImage_update_def)
qed (auto simp: handler_defs Let_def nth_append split: option.splits)

text \<open>
  C8: a new collage item has opacity \<open>0\<close>; \<open>CollageImage_update\<close> adds exactly \<open>5\<close> while the
  opacity is below \<open>255\<close> and changes nothing otherwise, so the opacity never decreases and
  after \<open>n\<close> updates it is the smaller of \<open>5 n\<close> and \<open>255\<close>. Every event either empties the
  collection or keeps every item at the same place with an opacity at least as large. In
  every reachable state the opacities lie between \<open>0\<close> and \<open>255\<close>, and every collage item a
  frame draws is drawn with an opacity of at most \<open>255\<close>.
\<close>

theorem collage_opacity_fades_in:
  "c_opacity (CollageImage_new w h im r) = 0
   \<and> (c_opacity c < 255 \<longrightarrow> c_opacity (CollageImage_update c) = c_opacity c + 5)
   \<and> (\<not> c_opacity c < 255 \<longrightarrow> CollageImage_update c = c)
   \<and> c_opacity c \<le> c_opacity (CollageImage_update c)
   \<and> c_opacity ((CollageImage_update ^^ n) (CollageImage_new w h im r)) = min (5 * int n) 255
   \<and> cc_opacity (CollageImage_display c) = c_opacity c
   \<and> collage_cmds (snd (draw v env s))
       = map (\<lambda>c. CollageImage_display (CollageImage_update c)) (collageImages s)
   \<and> (collageImages (step v e s) = []
      \<or> (length (collageImages s) \<le> length (collageImages (step v e s))
         \<and> (\<forall>i<length (collageImages s).
               c_opacity (collageImages s ! i) \<le> c_opacity (collageImages (step v e s) ! i))))
   \<and> (reachable v s \<longrightarrow>
        (\<forall>c\<in>set (collageImages s). 0 \<le> c_opacity c \<and> c_opacity c \<le> 255)
        \<and> (\<forall>cmd\<in>set (collage_cmds (snd (draw v env s))).
              0 < cc_opacity cmd \<and> cc_opacity cmd \<le> 255))"
proof -
  have new: "c_opacity (CollageImage_new w h im r) = 0"
    by (simp add: CollageImage_new_def)
  have upd: "(c_opacity c < 255 \<longrightarrow> c_opacity (CollageImage_update c) = c_opacity c + 5)
      \<and> (\<not> c_opacity c < 255 \<longrightarrow> CollageImage_update c = c)
      \<and> c_opacity c \<le> c_opacity (CollageImage_update c)"
    by (simp add: CollageImage_update_def)
  have drawn: "(\<forall>c\<in>set (collageImages s). 0 \<le> c_opacity c \<and> c_opacity c \<le> 255)
        \<and> (\<forall>cmd\<in>set (collage_cmds (snd (draw v env s))).
              0 < cc_opacity cmd \<and> cc_opacity cmd \<le> 255)"
    if re: "reachable v s"
  proof -
    have inv: "\<forall>c\<in>set (collageImages s). 0 \<le> c_opacity c \<and> c_opacity c \<le> 255 \<and> 5 dvd c_opacity c"
      using re by (rule reachable_collage_opacity)
    have "0 < c_opacity (CollageImage_update c) \<and> c_opacity (CollageImage_update c) \<le> 255"
      if "c \<in> set (collageImages s)" for c
    proof -
      from that inv have c: "0 \<le> c_opacity c" "c_opacity c \<le> 255" "5 dvd c_opacity c" by auto
      then have "c_opacity (CollageImage_update c) \<le> 255"
        using CollageImage_update_opacity [of c] by simp
      moreover have "0 < c_opacity (CollageImage_update c)"
        using c by (simp add: CollageImage_update_def)
      ultimately show ?thesis by simp
    qed
    then show ?thesis using inv
      by (auto simp: draw_collage_cmds CollageImage_display_def)
  qed
  show ?thesis
    using new upd drawn CollageImage_update_funpow [OF new, of n] step_collage_monotone [of v e s]
      draw_collage_cmds [of v env s]
    by (simp add: CollageImage_display_def)
qed

theorem collage_opacity_fades_in_witness:
  "reachable VarA (run VarA [KeyPressed ''s'' 0 (slide_at 0), Frame (frame_at 1 16 60)] (init 800 600))
   \<and> map c_opacity (collageImages
        (run VarA [KeyPressed ''s'' 0 (slide_at 0), Frame (frame_at 1 16 60)] (init 800 600))) = [5]
   \<and> map cc_opacity (collage_cmds (snd (draw VarA (frame_at 2 33 60)
        (run VarA [KeyPressed ''s'' 0 (slide_at 0), Frame (frame_at 1 16 60)] (init 800 600))))) = [10]
   \<and> c_opacity ((CollageImage_update ^^ 51)
        (CollageImage_new 800 600 (loadImage ''slide1.jpg'') (slide_at 0))) = 255
   \<and> c_opacity ((CollageImage_update ^^ 52)
        (CollageImage_new 800 600 (loadImage ''slide1.jpg'') (slide_at 0))) = 255"
proof -
  let ?k = "keyPressed VarA ''s'' 0 (slide_at 0) (init 800 600)"
  let ?s = "run VarA [KeyPressed ''s'' 0 (slide_at 0), Frame (frame_at 1 16 60)] (init 800 600)"
  let ?c = "CollageImage_new 800 600 (loadImage ''slide1.jpg'') (slide_at 0)"
  have re: "reachable VarA ?s" by (rule reachable_run [OF reachable_init])
  have k: "collageImages ?k = [?c]"
    by (simp add: keyPressed_def startSlideshow_def createCollageImage_def setInterval_def
          init_def Let_def random_elem_def slideshowImages_def slide_at_def)
  have s: "collageImages ?s = [CollageImage_update ?c]"
    by (simp add: draw_A_eq k)
  have facts: "c_opacity ?c = 0
      \<and> (c_opacity c < 255 \<longrightarrow> c_opacity (CollageImage_update c) = c_opacity c + 5)
      \<and> cc_opacity (CollageImage_display c) = c_opacity c
      \<and> collage_cmds (snd (draw VarA (frame_at 2 33 60) ?s))
          = map (\<lambda>c. CollageImage_display (CollageImage_update c)) (collageImages ?s)" for c
    using collage_opacity_fades_in
      [of 800 600 "loadImage ''slide1.jpg''" "slide_at 0" c 0 VarA "frame_at 2 33 60" ?s _]
    by blast
  have o5: "c_opacity (CollageImage_update ?c) = 5"
    using facts [of ?c] by simp
  then have o10: "c_opacity (CollageImage_update (CollageImage_update ?c)) = 10"
    using facts [of "CollageImage_update ?c"] by simp
  have five: "map c_opacity (collageImages ?s) = [5]"
    using s o5 by simp
  have cmds: "collage_cmds (snd (draw VarA (frame_at 2 33 60) ?s))
          = [CollageImage_display (CollageImage_update (CollageImage_update ?c))]"
    using facts [of ?c] s by simp
  have disp: "cc_opacity (CollageImage_display (CollageImage_update (CollageImage_update ?c))) = 10"
    using o10 facts [of "CollageImage_update (CollageImage_update ?c)"] by simp
  have ten: "map cc_opacity (collage_cmds (snd (draw VarA (frame_at 2 33 60) ?s))) = [10]"
    unfolding cmds using disp by simp
  have full: "c_opacity ((CollageImage_update ^^ 51) ?c) = 255"
    "c_opacity ((CollageImage_update ^^ 52) ?c) = 255"
    using collage_opacity_fades_in [of 800 600 "loadImage ''slide1.jpg''" "slide_at 0" _ 51]
      collage_opacity_fades_in [of 800 600 "loadImage ''slide1.jpg''" "slide_at 0" _ 52]
    by simp_all
  show ?thesis using re five ten full by blast
qed


section \<open>Alpha and scale of a displayed tear\<close>

text \<open>
  C4: for a tear with a non-zero lifespan, the alpha and the scale factor that \<open>display\<close>
  computes (in both sketches) are affine in the remaining life: alpha is
  \<open>255 / lifespan * life\<close> and the scale factor \<open>0.9 / lifespan * life + 0.1\<close>. They are \<open>0\<close>
  and \<open>0.1\<close> at life \<open>0\<close>, \<open>255\<close> and \<open>1\<close> at life equal to the lifespan, and \<open>127.5\<close> and \<open>0.55\<close>
  at lifespan \<open>300\<close> and life \<open>150\<close>. Arithmetic is exact.
\<close>

theorem tear_alpha_scale_affine:
  assumes "t_lifespan t \<noteq> 0"
  shows "Tear_alpha t = Some (255 / of_int (t_lifespan t) * of_int (t_life t))
         \<and> Tear_scaleFactor t = Some (9 / 10 / of_int (t_lifespan t) * of_int (t_life t) + 1 / 10)
         \<and> Tear_alpha (t\<lparr>t_life := 0\<rparr>) = Some 0
         \<and> Tear_scaleFactor (t\<lparr>t_life := 0\<rparr>) = Some (1 / 10)
         \<and> Tear_alpha (t\<lparr>t_life := t_lifespan t\<rparr>) = Some 255
         \<and> Tear_scaleFactor (t\<lparr>t_life := t_lifespan t\<rparr>) = Some 1
         \<and> Tear_alpha (t\<lparr>t_lifespan := 300, t_life := 150\<rparr>) = Some (255 / 2)
         \<and> Tear_scaleFactor (t\<lparr>t_lifespan := 300, t_life := 150\<rparr>) = Some (55 / 100)
         \<and> tint_alpha (tc_tint (Tear_display_A hue t)) = Tear_alpha t
         \<and> tc_w (Tear_display_A hue t) = js_scale (t_size t) (Tear_scaleFactor t)
         \<and> tc_h (Tear_display_A hue t) = js_scale (t_size t) (Tear_scaleFactor t)
         \<and> tint_alpha (tc_tint (Tear_display_B t)) = Tear_alpha t
         \<and> tc_w (Tear_display_B t) = js_scale (t_size t) (Tear_scaleFactor t)
         \<and> tc_h (Tear_display_B t) = js_scale (t_size t) (Tear_scaleFactor t)"
  using assms
  by (simp add: Tear_alpha_def Tear_scaleFactor_def map_p5_def Tear_display_A_def
        Tear_display_B_def Let_def field_simps)



theorem tear_alpha_scale_affine_witness:
  "t_lifespan (Tear_update (Tear_new_B 100 200 tearImagesSetA
      \<lparr>rnd_size = 1 / 2, rnd_vx = 1 / 2, rnd_vy = 1 / 2, rnd_img = 1\<rparr>)) = 150
   \<and> t_life (Tear_update (Tear_new_B 100 200 tearImagesSetA
      \<lparr>rnd_size = 1 / 2, rnd_vx = 1 / 2, rnd_vy = 1 / 2, rnd_img = 1\<rparr>)) = 149
   \<and> Tear_alpha (Tear_update (Tear_new_B 100 200 tearImagesSetA
      \<lparr>rnd_size = 1 / 2, rnd_vx = 1 / 2, rnd_vy = 1 / 2, rnd_img = 1\<rparr>)) = Some (2533 / 10)
   \<and> Tear_scaleFactor (Tear_update (Tear_new_B 100 200 tearImagesSetA
      \<lparr>rnd_size = 1 / 2, rnd_vx = 1 / 2, rnd_vy = 1 / 2, rnd_img = 1\<rparr>)) = Some (497 / 500)"
proof -
  let ?t = "Tear_update (Tear_new_B 100 200 tearImagesSetA
      \<lparr>rnd_size = 1 / 2, rnd_vx = 1 / 2, rnd_vy = 1 / 2, rnd_img = 1\<rparr>)"
  have l: "t_lifespan ?t = 150" "t_life ?t = 149"
    by (simp_all add: Tear_new_B_def)
  then have h: "t_lifespan ?t \<noteq> 0" by simp
  show ?thesis
    using l tear_alpha_scale_affine [OF h, of _] by simp
qed

section \<open>Emission\<close>

lemma emission_idle: "\<not> isCrying s \<Longrightarrow> emission v env s = s"
  by (cases v) (simp_all add: emission_A_def emission_B_def)

lemma reachable_A_emissionRate: "reachable VarA s \<Longrightarrow> emissionRate s = 3"
proof (induction rule: reachable.induct)
  case (reachable_init w h)
  show ?case by (simp add: init_def)
next
  case (reachable_step s e)
  then show ?case
    by (cases e) (auto simp: draw_A_eq handler_defs Let_def split: option.splits)
qed

lemma tear_images_nonempty: "tear_images v a \<noteq> []"
  by (cases v; cases a) (simp_all add: tearImagesSetA_def tearImagesSetB_def TEAR_FILENAMES_A_def)

lemma random_elem_in: "xs \<noteq> [] \<Longrightarrow> random_elem k xs \<in> set xs"
  by (simp add: random_elem_def)

lemma emission_A_reachable:
  assumes "reachable VarA s"
  shows "tears (emission_A env s)
           = tears s @ (if isCrying s \<and> frameCount env mod 3 = 0
                        then [Tear_new_A (mouseX env) (mouseY env)
                                (tear_images VarA (activeTearSet s)) (fresh_tear env)]
                        else [])"
    and "t_x (Tear_new_A x y (tear_images VarA a) r) = x"
    and "t_y (Tear_new_A x y (tear_images VarA a) r) = y"
    and "t_img (Tear_new_A x y (tear_images VarA a) r) \<in> set (tear_images VarA a)"
  using reachable_A_emissionRate [OF assms] random_elem_in [OF tear_images_nonempty]
  by (simp_all add: emission_A_def Tear_new_A_def)

lemma emission_B_every_10:
  "tears (emission_B env s)
     = tears s @ (if isCrying s \<and> frameCount env mod 10 = 0
                  then [Tear_new_B (mouseX env) (mouseY env)
                          (tear_images VarB (activeTearSet s)) (fresh_tear env)]
                  else [])"
  by (simp add: emission_B_def)

lemma emission_B_emissionRate:
  "tears (emission_B env (s\<lparr>emissionRate := k\<rparr>)) = tears (emission_B env s)"
  by (simp add: emission_B_def)

text \<open>
  C1: a frame in which the sketch is idle appends no tear, and a frame in which it is
  emitting with emission-rate divisor \<open>3\<close> appends exactly one tear, at the pointer and with
  an image of the active set, when the frame counter is divisible by \<open>3\<close>, and none
  otherwise. The first sketch does this (\<open>emission_idle\<close>, \<open>emission_A_reachable\<close>). The
  second sketch does not: emitting with \<open>emissionRate = 3\<close>, frame \<open>3\<close> appends no tear and
  frame \<open>10\<close> appends one, because its emission step divides by the literal \<open>10\<close>.
\<close>

theorem emission_B_divisor_3_not_used:
  "isCrying (mousePressed 0 (init 800 600))
   \<and> emissionRate (mousePressed 0 (init 800 600)) = 3
   \<and> tears (emission_B (frame_at 3 50 60) (mousePressed 0 (init 800 600))) = []
   \<and> tears (fst (draw_B (frame_at 3 50 60) (mousePressed 0 (init 800 600)))) = []
   \<and> length (tears (emission_B (frame_at 10 166 60) (mousePressed 0 (init 800 600)))) = 1
   \<and> length (tears (fst (draw_B (frame_at 10 166 60) (mousePressed 0 (init 800 600))))) = 1"
  by (simp add: draw_B_eq emission_B_def frame_at_def mousePressed_def startCrying_def init_def
        Tear_new_B_def)

text \<open>
  C2: in the second sketch the divisor \<open>emissionRate\<close> is set in every frame, to \<open>20\<close> when
  the measured frame rate is below \<open>30\<close> and to \<open>3\<close> otherwise, and a tear is to be emitted
  once every that many frames. The assignment is made, but the emission step never reads
  the variable: after a frame at rate \<open>20\<close> the divisor is \<open>20\<close> and frame \<open>10\<close> still emits a
  tear; after a frame at rate \<open>60\<close> the divisor is \<open>3\<close> and frame \<open>3\<close> emits none.
\<close>

theorem draw_B_throttle_not_applied:
  "emissionRate (fst (draw_B (frame_at 9 450 20) (mousePressed 0 (init 800 600)))) = 20
   \<and> length (tears (fst (draw_B (frame_at 10 500 20)
        (fst (draw_B (frame_at 9 450 20) (mousePressed 0 (init 800 600))))))) = 1
   \<and> emissionRate (fst (draw_B (frame_at 2 33 60) (mousePressed 0 (init 800 600)))) = 3
   \<and> tears (fst (draw_B (frame_at 3 50 60)
        (fst (draw_B (frame_at 2 33 60) (mousePressed 0 (init 800 600)))))) = []"
  by (simp add: draw_B_eq emission_B_def frame_at_def mousePressed_def startCrying_def init_def
        Tear_new_B_def)

section \<open>The tint hue of the first sketch\<close>

lemma tear_images_randomOffset:
  "im \<in> set (tear_images v a) \<Longrightarrow> img_randomOffset im = None"
  by (cases v; cases a)
     (auto simp: tearImagesSetA_def tearImagesSetB_def TEAR_FILENAMES_A_def loadImage_def)

lemma Tear_display_A_hue:
  "t_img t \<in> set (tear_images v a) \<Longrightarrow> tint_hue (tc_tint (Tear_display_A hue t)) = None"
  by (simp add: Tear_display_A_def tear_images_randomOffset js_add_def js_rem_def Let_def
        split: option.splits)

lemma emission_tears_img:
  assumes "\<forall>t\<in>set (tears s). \<exists>a. t_img t \<in> set (tear_images v a)"
  shows "\<forall>t\<in>set (tears (emission v env s)). \<exists>a. t_img t \<in> set (tear_images v a)"
proof -
  have "\<exists>a. random_elem k (tear_images v b) \<in> set (tear_images v a)" for k b
    using random_elem_in [OF tear_images_nonempty] by blast
  then show ?thesis using assms
    by (cases v) (auto simp: emission_A_def emission_B_def Tear_new_A_def Tear_new_B_def)
qed

lemma step_tears_img:
  assumes "\<forall>t\<in>set (tears s). \<exists>a. t_img t \<in> set (tear_images v a)"
  shows "\<forall>t\<in>set (tears (step v e s)). \<exists>a. t_img t \<in> set (tear_images v a)"
proof (cases "\<exists>env. e = Frame env")
  case True
  then obtain env where "e = Frame env" by blast
  then show ?thesis using emission_tears_img [OF assms, of env]
    by (auto simp: draw_eq)
next
  case False
  then show ?thesis using assms by (simp add: other_events_tears)
qed

lemma reachable_tears_img:
  "reachable v s \<Longrightarrow> \<forall>t\<in>set (tears s). \<exists>a. t_img t \<in> set (tear_images v a)"
proof (induction rule: reachable.induct)
  case (reachable_init w h)
  show ?case by (simp add: init_def)
next
  case (reachable_step s e)
  then show ?case by (intro step_tears_img)
qed

lemma reachable_A_hue:
  assumes "reachable VarA s"
  shows "\<forall>c\<in>set (tear_cmds (snd (draw_A env s))). tint_hue (tc_tint c) = None"
proof -
  have "\<forall>t\<in>set (tears (emission VarA env s)). \<exists>a. t_img t \<in> set (tear_images VarA a)"
    using reachable_tears_img [OF assms] by (rule emission_tears_img)
  then show ?thesis
    using draw_tear_cmds [of VarA env s] by (auto simp: Tear_display_A_hue)
qed
lemma js_trunc_twelfth: "js_trunc (1 / 12) = 0"
proof -
  have "\<lfloor>1 / 12 :: rat\<rfloor> = 0" by (rule floor_unique) simp_all
  then show ?thesis by (simp add: js_trunc_def)
qed

text \<open>
  C5: in the first sketch the tint hue of a displayed tear is to be the duration-based hue
  plus the per-image offset, modulo \<open>360\<close>. One second after emission starts the
  duration-based hue is \<open>30\<close>, but the tear displayed in that frame (image \<open>tear2.png\<close>) gets
  a hue that is not a number: no image has a \<open>randomOffset\<close>, so the sum is \<open>NaN\<close>. The same
  holds for every tear of every reachable state (\<open>reachable_A_hue\<close>).
\<close>

theorem tint_hue_not_a_number:
  "getDurationBasedHue 1000 (mousePressed 0 (init 800 600)) = Some 30
   \<and> map (\<lambda>c. img_file (tc_img c))
       (tear_cmds (snd (draw_A (frame_at 3 1000 60) (mousePressed 0 (init 800 600)))))
     = [''tear2.png'']
   \<and> map (\<lambda>c. tint_hue (tc_tint c))
       (tear_cmds (snd (draw_A (frame_at 3 1000 60) (mousePressed 0 (init 800 600)))))
     = [None]"
  by (simp add: draw_A_eq emission_A_def frame_at_def mousePressed_def startCrying_def init_def
        Tear_new_A_def getDurationBasedHue_def js_rem_def js_add_def js_trunc_twelfth
        Tear_display_A_def Let_def random_elem_def tearImagesSetA_def TEAR_FILENAMES_A_def
        loadImage_def rev_map)



end
